theory Spec2Isabelle
  imports Main "HOL-Library.AList"
begin

section \<open>Values, rows and the database\<close>

text \<open>
  The identity service (class \<open>AuthService\<close>: registration, login, logout, token
  refresh and validation, profile lookup, and the two flows driven by one-time codes)
  works on JavaScript objects and on the tables of the SQL schema
  (\<open>users\<close>, \<open>agents\<close>, \<open>corporate_users\<close>, \<open>sessions\<close>, \<open>otp_codes\<close>). A JavaScript object with scalar fields is an association
  list from field names to values; object spread with an overriding field is
  \<open>AList.update\<close>, the \<open>delete\<close> operator is \<open>AList.delete\<close>, a field read is
  \<open>map_of\<close> (\<open>None\<close> for \<open>undefined\<close>).

  Primary keys are opaque unique keys that the database client generates (\<open>TEXT\<close>
  columns in the schema); they are natural numbers here. Instants are milliseconds
  since the epoch (\<open>Date.now()\<close>), passed to every operation that reads the clock;
  values of local time, which \<open>Date.prototype.setMinutes\<close> computes with, are integers.
\<close>

datatype jsval = Str string | Bool bool

type_synonym obj = "(string \<times> jsval) list"

datatype OtpType = EMAIL_VERIFICATION | PHONE_VERIFICATION | LOGIN | PASSWORD_RESET

record user =
  user_id :: nat
  user_data :: obj

record agent =
  agent_id :: nat
  agent_userId :: nat
  agent_data :: obj

record corporateUser =
  corporate_id :: nat
  corporate_userId :: nat
  corporate_data :: obj

record session =
  session_id :: nat
  session_userId :: nat
  session_token :: string
  session_expiresAt :: nat

record otpCode =
  otp_id :: nat
  otp_userId :: nat
  otp_code :: string
  otp_type :: OtpType
  otp_expiresAt :: nat
  otp_verified :: bool

record db =
  users :: "user list"
  agents :: "agent list"
  corporateUsers :: "corporateUser list"
  sessions :: "session list"
  otpCodes :: "otpCode list"

subsection \<open>Errors\<close>

datatype prisma_error =
    ValidationError
  | UniqueConstraint string
  | NotNullViolation string
  | ForeignKeyViolation string
  | RecordNotFound

datatype jwt_error = TokenExpiredError | JsonWebTokenError

datatype error =
    UnauthorizedException string
  | PrismaError prisma_error
  | BcryptError

subsection \<open>Library primitives and the host\<close>

text \<open>
  \<open>bcrypt\<close> and \<open>jsonwebtoken\<close> are libraries, not code of the service, and the time
  zone is the host's; what the service needs of them is a parameter:
  \<^item> \<open>bcrypt_hash plaintext rounds salt\<close> is \<open>bcrypt.hash\<close>, the salt being the random
    draw of the call;
  \<^item> \<open>bcrypt_compare plaintext digest\<close> is \<open>bcrypt.compare\<close>;
  \<^item> \<open>jwt_sign userId secret seconds now\<close> is \<open>jwt.sign({ userId }, secret, { expiresIn })\<close>;
    \<open>userId\<close> is \<open>None\<close> when the caller passes \<open>undefined\<close>, as \<open>refreshToken\<close> can;
  \<^item> \<open>jwt_verify token secret now\<close> is \<open>jwt.verify\<close>: an error (malformed token, bad
    signature, expiry passed), or the payload, of which the service reads \<open>userId\<close>
    only: \<open>Some id\<close> when the payload holds a string \<open>userId\<close>, \<open>None\<close> when it
    holds none (the cast \<open>as { userId: string }\<close> checks nothing, and whoever knows the
    literal secret can sign any payload);
  \<^item> \<open>LocalTZA t isUTC\<close> is the abstract operation of that name of ECMAScript: the
    offset of the host's local time from UTC, in milliseconds, at the UTC instant \<open>t\<close>
    (\<open>isUTC\<close> true) or at the local time value \<open>t\<close> (\<open>isUTC\<close> false).
\<close>

record env =
  bcrypt_hash :: "string \<Rightarrow> nat \<Rightarrow> nat \<Rightarrow> string"
  bcrypt_compare :: "string \<Rightarrow> string \<Rightarrow> bool"
  jwt_sign :: "nat option \<Rightarrow> string \<Rightarrow> nat \<Rightarrow> nat \<Rightarrow> string"
  jwt_verify :: "string \<Rightarrow> string \<Rightarrow> nat \<Rightarrow> jwt_error + nat option"
  LocalTZA :: "int \<Rightarrow> bool \<Rightarrow> int"

definition secret :: string where
  "secret = ''YOUR_SECRET_KEY''"

subsection \<open>Fifteen minutes later, on the local clock\<close>

text \<open>
  Both OTP expiries are computed as
  \<open>const expiresAt = new Date(); expiresAt.setMinutes(expiresAt.getMinutes() + 15)\<close>.
  \<open>getMinutes\<close> and \<open>setMinutes\<close> work on local time: with \<open>t = LocalTime(now)\<close>,
  \<open>setMinutes(MinFromTime(t) + 15)\<close> stores
  \<open>UTC(MakeDate(Day(t), MakeTime(HourFromTime(t), MinFromTime(t) + 15, SecFromTime(t),
  msFromTime(t))))\<close>, and the argument of \<open>UTC\<close> is \<open>t + 900000\<close>, since \<open>MakeTime\<close> and
  \<open>MakeDate\<close> only add up their fields. \<open>LocalTime(t) = t + LocalTZA(t, true)\<close> and
  \<open>UTC(t) = t - LocalTZA(t, false)\<close>.
\<close>

definition LocalTime :: "env \<Rightarrow> int \<Rightarrow> int" where
  "LocalTime e t = t + LocalTZA e t True"

definition UTC :: "env \<Rightarrow> int \<Rightarrow> int" where
  "UTC e t = t - LocalTZA e t False"

definition setMinutes_plus15 :: "env \<Rightarrow> nat \<Rightarrow> nat" where
  "setMinutes_plus15 e now = nat (UTC e (LocalTime e (int now) + 900000))"

section \<open>Persistence: the tables of the schema\<close>

definition fresh_id :: "nat list \<Rightarrow> nat" where
  "fresh_id ids = Suc (foldr max ids 0)"

subsection \<open>Columns and the payload of a create\<close>

text \<open>
  A \<open>create\<close> whose payload comes from the caller (\<open>register(userDetails: any)\<close>) is
  refused unless every field of the payload is a column of the table with a value of
  the column's type, and every column that is \<open>NOT NULL\<close> without a \<open>DEFAULT\<close> is
  given. A column is its name, its type and whether an insert must give it. Left out
  of the lists: \<open>id\<close> and \<open>updatedAt\<close> as required columns (the service never gives
  them, not even in the payloads it writes out itself, so the client fills them in;
  \<open>id\<close> cannot be set by a payload here, keys being generated), and \<open>userId\<close> of the
  two profile tables, which the service gives through \<open>user: { connect: { id } }\<close>.
  A timestamp or a decimal is given as a string, whose syntax is not checked.
\<close>

datatype sqltype = TEXT | BOOLEAN | TIMESTAMP | DECIMAL | ENUM "string list"

type_synonym column = "string \<times> sqltype \<times> bool"

fun value_ok :: "sqltype \<Rightarrow> jsval \<Rightarrow> bool" where
  "value_ok BOOLEAN (Bool b) = True"
| "value_ok BOOLEAN (Str s) = False"
| "value_ok (ENUM vs) (Str s) = (s \<in> set vs)"
| "value_ok ty (Str s) = True"
| "value_ok ty (Bool b) = False"

text \<open>\<open>CREATE TABLE "users"\<close>.\<close>

definition users_columns :: "column list" where
  "users_columns =
     [(''email'', TEXT, True), (''phone'', TEXT, False), (''password'', TEXT, False),
      (''firstName'', TEXT, True), (''lastName'', TEXT, True),
      (''dateOfBirth'', TIMESTAMP, False), (''nationality'', TEXT, False),
      (''passportNumber'', TEXT, False), (''isActive'', BOOLEAN, False),
      (''isVerified'', BOOLEAN, False), (''emailVerified'', TIMESTAMP, False),
      (''phoneVerified'', TIMESTAMP, False), (''createdAt'', TIMESTAMP, False),
      (''updatedAt'', TIMESTAMP, False)]"

text \<open>\<open>CREATE TABLE "agents"\<close>; \<open>accessLevel\<close> is of the enum \<open>AgentAccessLevel\<close>.\<close>

definition agents_columns :: "column list" where
  "agents_columns =
     [(''agentCode'', TEXT, True), (''department'', TEXT, False),
      (''accessLevel'', ENUM [''BASIC'', ''SUPERVISOR'', ''MANAGER'', ''ADMIN''], False),
      (''isActive'', BOOLEAN, False), (''supervisorId'', TEXT, False),
      (''createdAt'', TIMESTAMP, False), (''updatedAt'', TIMESTAMP, False)]"

text \<open>\<open>CREATE TABLE "corporate_users"\<close>.\<close>

definition corporate_users_columns :: "column list" where
  "corporate_users_columns =
     [(''companyId'', TEXT, True), (''employeeId'', TEXT, False), (''costCenter'', TEXT, False),
      (''approvalLimit'', DECIMAL, False), (''isApprover'', BOOLEAN, False),
      (''createdAt'', TIMESTAMP, False), (''updatedAt'', TIMESTAMP, False)]"

definition field_ok :: "column list \<Rightarrow> string \<times> jsval \<Rightarrow> bool" where
  "field_ok cols f =
     (case map_of cols (fst f) of None \<Rightarrow> False | Some (ty, req) \<Rightarrow> value_ok ty (snd f))"

definition payload_error :: "column list \<Rightarrow> obj \<Rightarrow> error option" where
  "payload_error cols data =
     (if \<not> list_all (field_ok cols) data then Some (PrismaError ValidationError)
      else case find (\<lambda>(c, ty, req). req \<and> map_of data c = None) cols of
             Some (c, ty, req) \<Rightarrow> Some (PrismaError (NotNullViolation c))
           | None \<Rightarrow> None)"

subsection \<open>sessions\<close>

text \<open>
  \<open>CREATE TABLE "sessions"\<close>: \<open>userId TEXT NOT NULL\<close> with a foreign key to \<open>users\<close>,
  and a unique index on \<open>token\<close>. The payload of \<open>session.create\<close> may leave
  \<open>userId\<close> out.
\<close>

record sessionData =
  sd_token :: string
  sd_userId :: "nat option"
  sd_expiresAt :: nat

definition session_create :: "db \<Rightarrow> sessionData \<Rightarrow> error + db" where
  "session_create d sd =
     (case sd_userId sd of
        None \<Rightarrow> Inl (PrismaError (NotNullViolation ''userId''))
      | Some uid \<Rightarrow>
          if find (\<lambda>u. user_id u = uid) (users d) = None
          then Inl (PrismaError (ForeignKeyViolation ''sessions_userId_fkey''))
          else if find (\<lambda>s. session_token s = sd_token sd) (sessions d) \<noteq> None
          then Inl (PrismaError (UniqueConstraint ''token''))
          else Inr (d\<lparr>sessions := sessions d @
                 [\<lparr>session_id = fresh_id (map session_id (sessions d)),
                   session_userId = uid,
                   session_token = sd_token sd,
                   session_expiresAt = sd_expiresAt sd\<rparr>]\<rparr>))"

text \<open>\<open>session.delete({ where: { token } })\<close> throws when no row has the token.\<close>

definition session_delete :: "db \<Rightarrow> string \<Rightarrow> error + db" where
  "session_delete d t =
     (if find (\<lambda>s. session_token s = t) (sessions d) = None
      then Inl (PrismaError RecordNotFound)
      else Inr (d\<lparr>sessions := filter (\<lambda>s. session_token s \<noteq> t) (sessions d)\<rparr>))"

subsection \<open>users\<close>

definition user_findByEmail :: "db \<Rightarrow> string \<Rightarrow> user option" where
  "user_findByEmail d email =
     find (\<lambda>u. map_of (user_data u) ''email'' = Some (Str email)) (users d)"

definition user_findById :: "db \<Rightarrow> nat \<Rightarrow> user option" where
  "user_findById d uid = find (\<lambda>u. user_id u = uid) (users d)"

text \<open>\<open>CREATE UNIQUE INDEX "users_email_key"\<close>.\<close>

definition email_taken :: "db \<Rightarrow> obj \<Rightarrow> bool" where
  "email_taken d data =
     (case map_of data ''email'' of
        None \<Rightarrow> False
      | Some v \<Rightarrow> find (\<lambda>u. map_of (user_data u) ''email'' = Some v) (users d) \<noteq> None)"

definition user_create :: "db \<Rightarrow> obj \<Rightarrow> error + user \<times> db" where
  "user_create d data =
     (case payload_error users_columns data of
        Some err \<Rightarrow> Inl err
      | None \<Rightarrow>
          if email_taken d data then Inl (PrismaError (UniqueConstraint ''email''))
          else let u = \<lparr>user_id = fresh_id (map user_id (users d)), user_data = data\<rparr>
               in Inr (u, d\<lparr>users := users d @ [u]\<rparr>))"

definition merge_obj :: "obj \<Rightarrow> obj \<Rightarrow> obj" where
  "merge_obj old data = fold (\<lambda>(k, v). AList.update k v) data old"

text \<open>\<open>user.update({ where: { id }, data })\<close> throws when no row has the id.\<close>

definition user_update :: "db \<Rightarrow> nat \<Rightarrow> obj \<Rightarrow> error + db" where
  "user_update d uid data =
     (if user_findById d uid = None then Inl (PrismaError RecordNotFound)
      else Inr (d\<lparr>users :=
             map (\<lambda>u. if user_id u = uid
                       then u\<lparr>user_data := merge_obj (user_data u) data\<rparr> else u)
                 (users d)\<rparr>))"

subsection \<open>agents, corporate_users\<close>

text \<open>
  The role profiles are created with \<open>user: { connect: { id } }\<close>: the user must exist,
  and \<open>userId\<close> is unique in both tables (\<open>agents_userId_key\<close>,
  \<open>corporate_users_userId_key\<close>). The unique index on \<open>agentCode\<close> and the foreign keys
  \<open>supervisorId\<close> and \<open>companyId\<close> are further grounds to refuse the insert; they are
  left out, the tables they need not being part of the state, and nothing below rests
  on a profile insert being accepted.
\<close>

definition agent_create :: "db \<Rightarrow> obj \<Rightarrow> nat \<Rightarrow> error + db" where
  "agent_create d data uid =
     (case payload_error agents_columns data of
        Some err \<Rightarrow> Inl err
      | None \<Rightarrow>
          if user_findById d uid = None then Inl (PrismaError RecordNotFound)
          else if find (\<lambda>a. agent_userId a = uid) (agents d) \<noteq> None
          then Inl (PrismaError (UniqueConstraint ''userId''))
          else Inr (d\<lparr>agents := agents d @
                 [\<lparr>agent_id = fresh_id (map agent_id (agents d)),
                   agent_userId = uid, agent_data = data\<rparr>]\<rparr>))"

definition corporateUser_create :: "db \<Rightarrow> obj \<Rightarrow> nat \<Rightarrow> error + db" where
  "corporateUser_create d data uid =
     (case payload_error corporate_users_columns data of
        Some err \<Rightarrow> Inl err
      | None \<Rightarrow>
          if user_findById d uid = None then Inl (PrismaError RecordNotFound)
          else if find (\<lambda>c. corporate_userId c = uid) (corporateUsers d) \<noteq> None
          then Inl (PrismaError (UniqueConstraint ''userId''))
          else Inr (d\<lparr>corporateUsers := corporateUsers d @
                 [\<lparr>corporate_id = fresh_id (map corporate_id (corporateUsers d)),
                   corporate_userId = uid, corporate_data = data\<rparr>]\<rparr>))"

subsection \<open>otp_codes\<close>

record otpData =
  od_userId :: nat
  od_code :: string
  od_type :: OtpType
  od_expiresAt :: nat

text \<open>\<open>verified BOOLEAN NOT NULL DEFAULT false\<close>; \<open>otp_codes_userId_fkey\<close>.\<close>

definition otpCode_create :: "db \<Rightarrow> otpData \<Rightarrow> error + db" where
  "otpCode_create d od =
     (if user_findById d (od_userId od) = None
      then Inl (PrismaError (ForeignKeyViolation ''otp_codes_userId_fkey''))
      else Inr (d\<lparr>otpCodes := otpCodes d @
             [\<lparr>otp_id = fresh_id (map otp_id (otpCodes d)),
               otp_userId = od_userId od,
               otp_code = od_code od,
               otp_type = od_type od,
               otp_expiresAt = od_expiresAt od,
               otp_verified = False\<rparr>]\<rparr>))"

text \<open>
  The \<open>where\<close> clause of both verification flows:
  \<open>{ code, type, expiresAt: { gt: new Date() }, verified: false }\<close>.
\<close>

definition otp_where :: "string \<Rightarrow> OtpType \<Rightarrow> nat \<Rightarrow> otpCode \<Rightarrow> bool" where
  "otp_where c k now otp =
     (otp_code otp = c \<and> otp_type otp = k \<and> now < otp_expiresAt otp \<and> \<not> otp_verified otp)"

text \<open>
  \<open>findFirst\<close> has no \<open>orderBy\<close>: the row it returns among several matches is the
  database's choice, here the first in table order.
\<close>

definition otpCode_findFirst :: "db \<Rightarrow> string \<Rightarrow> OtpType \<Rightarrow> nat \<Rightarrow> otpCode option" where
  "otpCode_findFirst d c k now = find (otp_where c k now) (otpCodes d)"

text \<open>\<open>otpCode.update({ where: { id }, data: { verified } })\<close>.\<close>

definition otpCode_update :: "db \<Rightarrow> nat \<Rightarrow> bool \<Rightarrow> error + db" where
  "otpCode_update d oid v =
     (if find (\<lambda>otp. otp_id otp = oid) (otpCodes d) = None
      then Inl (PrismaError RecordNotFound)
      else Inr (d\<lparr>otpCodes :=
             map (\<lambda>otp. if otp_id otp = oid then otp\<lparr>otp_verified := v\<rparr> else otp)
                 (otpCodes d)\<rparr>))"

subsection \<open>Transactions\<close>

text \<open>
  \<open>this.db.$transaction(async (prisma) => ...)\<close>: when the callback throws, what it
  wrote through the transaction client \<open>prisma\<close> is rolled back. The callback of
  \<open>register\<close> writes users, role profiles and OTP codes through \<open>prisma\<close>, and the
  session through \<open>this.db\<close>, which is outside the transaction: a rollback keeps the
  sessions table as the callback left it.
\<close>

definition transaction :: "(db \<Rightarrow> (error + 'a) \<times> db) \<Rightarrow> db \<Rightarrow> (error + 'a) \<times> db" where
  "transaction body d =
     (case body d of
        (Inl err, d') \<Rightarrow> (Inl err, d\<lparr>sessions := sessions d'\<rparr>)
      | (Inr v, d') \<Rightarrow> (Inr v, d'))"

subsection \<open>Number to string\<close>

fun toString :: "nat \<Rightarrow> string" where
  "toString n =
     (if n < 10 then [''0123456789'' ! n]
      else toString (n div 10) @ [''0123456789'' ! (n mod 10)])"

declare toString.simps [simp del]

section \<open>AuthService\<close>

text \<open>
  Every method takes the database and returns it with its result: \<open>Inl\<close> is the
  exception thrown, \<open>Inr\<close> the value the promise resolves to.
\<close>

subsection \<open>generateToken\<close>

text \<open>
  \<open>jwt.sign({ userId }, secret, { expiresIn: '1h' })\<close>, then
  \<open>session.create({ data: { token, expiresAt: new Date(Date.now() + 3600000) } })\<close>:
  the line \<open>userId: userId\<close> of the payload is commented out in the source. The
  parameter is declared a string; \<open>refreshToken\<close> passes \<open>decoded.userId\<close>, which is
  \<open>undefined\<close> (\<open>None\<close>) for a payload without it.
\<close>

definition generateToken_data :: "string \<Rightarrow> nat \<Rightarrow> sessionData" where
  "generateToken_data token now =
     \<lparr>sd_token = token, sd_userId = None, sd_expiresAt = now + 3600000\<rparr>"

definition generateToken :: "env \<Rightarrow> db \<Rightarrow> nat \<Rightarrow> nat option \<Rightarrow> (error + string) \<times> db" where
  "generateToken e d now userId =
     (let token = jwt_sign e userId secret 3600 now
      in case session_create d (generateToken_data token now) of
           Inl err \<Rightarrow> (Inl err, d)
         | Inr d' \<Rightarrow> (Inr token, d'))"

subsection \<open>getUserInfo\<close>

text \<open>
  \<open>jwt.verify\<close>, then \<open>user.findUnique\<close> by the decoded id with both profiles included,
  then \<open>switch (true)\<close>: \<open>case !!user.corporateProfile\<close> first,
  \<open>case !!user.agentProfile\<close> second, the user by default. The whole body is in a
  \<open>try\<close> whose \<open>catch\<close> throws \<open>UnauthorizedException('Invalid token')\<close>: for a token
  that \<open>jwt.verify\<close> refuses, and also for a verified token whose payload has no string
  \<open>userId\<close>, on which \<open>findUnique({ where: { id: undefined } })\<close> throws.
  \<open>return null\<close> for a missing user is inside the \<open>try\<close> and is not an exception.
\<close>

datatype userInfo = CorporateProfile corporateUser | AgentProfile agent | BaseUser user

definition getUserInfo :: "env \<Rightarrow> db \<Rightarrow> nat \<Rightarrow> string \<Rightarrow> (error + userInfo option) \<times> db" where
  "getUserInfo e d now t =
     (case jwt_verify e t secret now of
        Inl _ \<Rightarrow> (Inl (UnauthorizedException ''Invalid token''), d)
      | Inr None \<Rightarrow> (Inl (UnauthorizedException ''Invalid token''), d)
      | Inr (Some userId) \<Rightarrow>
          (case user_findById d userId of
             None \<Rightarrow> (Inr None, d)
           | Some u \<Rightarrow>
               (case find (\<lambda>c. corporate_userId c = user_id u) (corporateUsers d) of
                  Some c \<Rightarrow> (Inr (Some (CorporateProfile c)), d)
                | None \<Rightarrow>
                    (case find (\<lambda>a. agent_userId a = user_id u) (agents d) of
                       Some a \<Rightarrow> (Inr (Some (AgentProfile a)), d)
                     | None \<Rightarrow> (Inr (Some (BaseUser u)), d)))))"

subsection \<open>register\<close>

text \<open>
  The \<open>switch (userDetails.userType)\<close> of \<open>register\<close>: both profile creations get
  \<open>{ ...userDetails, user: { connect: { id: newUser.id } } }\<close>.
\<close>

definition register_profile :: "db \<Rightarrow> obj \<Rightarrow> nat \<Rightarrow> error + db" where
  "register_profile tx userDetails newUserId =
     (case map_of userDetails ''userType'' of
        Some (Str userType) \<Rightarrow>
          if userType = ''AGENT'' then agent_create tx userDetails newUserId
          else if userType = ''CORPORATE'' then corporateUser_create tx userDetails newUserId
          else Inr tx
      | _ \<Rightarrow> Inr tx)"

text \<open>
  The callback of the transaction, in the order of the source: \<open>bcrypt.hash\<close> of
  \<open>userDetails.password\<close> (which throws unless it is a string),
  \<open>delete userDetails['username']\<close>, \<open>user.create\<close> with
  \<open>{ ...userDetails, password: hashedPassword }\<close>, the role profile, the
  \<open>EMAIL_VERIFICATION\<close> code, and \<open>this.generateToken(newUser.id)\<close>.
  \<open>salt\<close> is the random draw of \<open>bcrypt.hash\<close>, \<open>rnd\<close> is
  \<open>Math.floor(Math.random() * 900000)\<close>, so that the code is
  \<open>Math.floor(100000 + Math.random() * 900000).toString()\<close>;
  the expiry is \<open>setMinutes(getMinutes() + 15)\<close> of the instant. The second component
  of the result is the database as the callback left it.
\<close>

definition register_tx ::
  "env \<Rightarrow> nat \<Rightarrow> obj \<Rightarrow> nat \<Rightarrow> nat \<Rightarrow> db \<Rightarrow> (error + string) \<times> db" where
  "register_tx e now userDetails0 salt rnd tx =
     (case map_of userDetails0 ''password'' of
        Some (Str password) \<Rightarrow>
          (let hashedPassword = bcrypt_hash e password 10 salt;
               userDetails = AList.delete ''username'' userDetails0
           in case user_create tx (AList.update ''password'' (Str hashedPassword) userDetails) of
                Inl err \<Rightarrow> (Inl err, tx)
              | Inr (newUser, tx1) \<Rightarrow>
                  (case register_profile tx1 userDetails (user_id newUser) of
                     Inl err \<Rightarrow> (Inl err, tx1)
                   | Inr tx2 \<Rightarrow>
                       (case otpCode_create tx2
                               \<lparr>od_userId = user_id newUser,
                                od_code = toString (100000 + rnd),
                                od_type = EMAIL_VERIFICATION,
                                od_expiresAt = setMinutes_plus15 e now\<rparr> of
                          Inl err \<Rightarrow> (Inl err, tx2)
                        | Inr tx3 \<Rightarrow> generateToken e tx3 now (Some (user_id newUser)))))
      | _ \<Rightarrow> (Inl BcryptError, tx))"

definition register :: "env \<Rightarrow> db \<Rightarrow> nat \<Rightarrow> obj \<Rightarrow> nat \<Rightarrow> nat \<Rightarrow> (error + string) \<times> db" where
  "register e d now userDetails salt rnd = transaction (register_tx e now userDetails salt rnd) d"

subsection \<open>login, refreshToken\<close>

text \<open>
  \<open>login\<close>: \<open>user.findUnique({ where: { email } })\<close>; no user, or
  \<open>bcrypt.compare(password, user.password)\<close> false: \<open>UnauthorizedException('Invalid
  credentials')\<close> in both places; else \<open>this.generateToken(user.id)\<close>. The
  \<open>password\<close> column is nullable, and \<open>bcrypt.compare\<close> throws on a missing digest.
  \<open>refreshToken\<close>: \<open>jwt.verify\<close>, then \<open>this.generateToken(decoded.userId)\<close>, whose
  promise is returned without \<open>await\<close>, so its rejection is not turned into the
  \<open>UnauthorizedException\<close> of the \<open>catch\<close>.
\<close>

definition login :: "env \<Rightarrow> db \<Rightarrow> nat \<Rightarrow> string \<Rightarrow> string \<Rightarrow> (error + string) \<times> db" where
  "login e d now email password =
     (case user_findByEmail d email of
        None \<Rightarrow> (Inl (UnauthorizedException ''Invalid credentials''), d)
      | Some u \<Rightarrow>
          (case map_of (user_data u) ''password'' of
             Some (Str digest) \<Rightarrow>
               if bcrypt_compare e password digest
               then generateToken e d now (Some (user_id u))
               else (Inl (UnauthorizedException ''Invalid credentials''), d)
           | _ \<Rightarrow> (Inl BcryptError, d)))"

definition refreshToken :: "env \<Rightarrow> db \<Rightarrow> nat \<Rightarrow> string \<Rightarrow> (error + string) \<times> db" where
  "refreshToken e d now t =
     (case jwt_verify e t secret now of
        Inl _ \<Rightarrow> (Inl (UnauthorizedException ''Invalid or expired token''), d)
      | Inr userId \<Rightarrow> generateToken e d now userId)"

subsection \<open>validateToken, logout\<close>

text \<open>
  \<open>validateToken\<close>: \<open>try { jwt.verify(...); return true } catch { return false }\<close>.
  \<open>logout\<close>: \<open>try { await this.db.session.delete({ where: { token } }) } catch\<close>, the
  \<open>catch\<close> only logs. Both take the database so that what they do to it, and what they
  read of it, can be stated.
\<close>

definition validateToken :: "env \<Rightarrow> db \<Rightarrow> nat \<Rightarrow> string \<Rightarrow> (error + bool) \<times> db" where
  "validateToken e d now t =
     (case jwt_verify e t secret now of
        Inr _ \<Rightarrow> (Inr True, d)
      | Inl _ \<Rightarrow> (Inr False, d))"

definition logout :: "db \<Rightarrow> string \<Rightarrow> (error + unit) \<times> db" where
  "logout d t =
     (case session_delete d t of
        Inr d' \<Rightarrow> (Inr (), d')
      | Inl _ \<Rightarrow> (Inr (), d))"

subsection \<open>requestPasswordReset, verifyPasswordReset, verifyEmail\<close>

text \<open>
  \<open>requestPasswordReset\<close> returns early, without a throw, when no user has the email;
  the expiry of the code it creates is \<open>setMinutes(getMinutes() + 15)\<close> of the instant.
  The two verification flows find the first row matching code, type, expiry and
  \<open>verified: false\<close>, update the owning user (new digest, or \<open>isVerified: true\<close>) and
  mark the row verified, in this order and outside any transaction.
\<close>

definition requestPasswordReset ::
  "env \<Rightarrow> db \<Rightarrow> nat \<Rightarrow> string \<Rightarrow> nat \<Rightarrow> (error + unit) \<times> db" where
  "requestPasswordReset e d now email rnd =
     (case user_findByEmail d email of
        None \<Rightarrow> (Inr (), d)
      | Some u \<Rightarrow>
          (case otpCode_create d
                  \<lparr>od_userId = user_id u,
                   od_code = toString (100000 + rnd),
                   od_type = PASSWORD_RESET,
                   od_expiresAt = setMinutes_plus15 e now\<rparr> of
             Inl err \<Rightarrow> (Inl err, d)
           | Inr d' \<Rightarrow> (Inr (), d')))"

definition verifyPasswordReset ::
  "env \<Rightarrow> db \<Rightarrow> nat \<Rightarrow> string \<Rightarrow> string \<Rightarrow> nat \<Rightarrow> (error + unit) \<times> db" where
  "verifyPasswordReset e d now t newPassword salt =
     (case otpCode_findFirst d t PASSWORD_RESET now of
        None \<Rightarrow> (Inl (UnauthorizedException ''Invalid or expired token''), d)
      | Some otpRecord \<Rightarrow>
          (let hashedPassword = bcrypt_hash e newPassword 10 salt
           in case user_update d (otp_userId otpRecord) [(''password'', Str hashedPassword)] of
                Inl err \<Rightarrow> (Inl err, d)
              | Inr d1 \<Rightarrow>
                  (case otpCode_update d1 (otp_id otpRecord) True of
                     Inl err \<Rightarrow> (Inl err, d1)
                   | Inr d2 \<Rightarrow> (Inr (), d2))))"

definition verifyEmail :: "db \<Rightarrow> nat \<Rightarrow> string \<Rightarrow> (error + unit) \<times> db" where
  "verifyEmail d now t =
     (case otpCode_findFirst d t EMAIL_VERIFICATION now of
        None \<Rightarrow> (Inl (UnauthorizedException ''Invalid or expired verification token''), d)
      | Some otpRecord \<Rightarrow>
          (case user_update d (otp_userId otpRecord) [(''isVerified'', Bool True)] of
             Inl err \<Rightarrow> (Inl err, d)
           | Inr d1 \<Rightarrow>
               (case otpCode_update d1 (otp_id otpRecord) True of
                  Inl err \<Rightarrow> (Inl err, d1)
                | Inr d2 \<Rightarrow> (Inr (), d2))))"

section \<open>Concrete environment and databases\<close>

text \<open>
  A small environment and a few databases on which the theorems below are instantiated
  and the service is run. The digest of \<open>env0\<close> is the plaintext behind a \<open>$2b$10$\<close>
  prefix. Two tokens carry a valid signature under the literal secret, both expiring at
  instant 3600000: \<open>tokenA\<close>, whose payload is \<open>{ userId }\<close> of user 11, and \<open>tokenB\<close>,
  whose payload has no \<open>userId\<close>. The host of \<open>env0\<close> keeps UTC.
\<close>

definition env0 :: env where
  "env0 =
     \<lparr>bcrypt_hash = (\<lambda>p rounds salt. ''$2b$10$'' @ p),
      bcrypt_compare = (\<lambda>p digest. digest = ''$2b$10$'' @ p),
      jwt_sign = (\<lambda>userId key seconds now. ''tokenA''),
      jwt_verify = (\<lambda>t key now.
         if (t = ''tokenA'' \<or> t = ''tokenB'') \<and> key = ''YOUR_SECRET_KEY''
         then (if now < 3600000 then Inr (if t = ''tokenA'' then Some 11 else None)
               else Inl TokenExpiredError)
         else Inl JsonWebTokenError),
      LocalTZA = (\<lambda>t isUTC. 0)\<rparr>"

text \<open>
  The host of \<open>env_dst\<close> is four hours behind UTC until the instant 21600000 and five
  hours behind from then on, as a host in New York is when daylight saving time ends:
  its clock reads 02:00 at that instant and is set back to 01:00. A local time that
  occurs twice is read with the offset before the change, as ECMAScript says.
\<close>

definition env_dst :: env where
  "env_dst = env0\<lparr>LocalTZA := (\<lambda>t isUTC.
      if isUTC then (if t < 21600000 then - 14400000 else - 18000000)
      else (if t < 7200000 then - 14400000 else - 18000000))\<rparr>"

definition alice :: user where
  "alice = \<lparr>user_id = 11,
            user_data = [(''email'', Str ''a@x.com''), (''password'', Str ''$2b$10$secret123'')]\<rparr>"

definition bob :: user where
  "bob = \<lparr>user_id = 12,
          user_data = [(''email'', Str ''b@x.com''), (''password'', Str ''$2b$10$hunter2'')]\<rparr>"

definition db0 :: db where
  "db0 = \<lparr>users = [alice], agents = [], corporateUsers = [], sessions = [], otpCodes = []\<rparr>"

text \<open>\<open>db1\<close>: user 11 has both an agent profile and a corporate profile, and a session.\<close>

definition db1 :: db where
  "db1 = \<lparr>users = [alice],
          agents = [\<lparr>agent_id = 21, agent_userId = 11, agent_data = [(''agentCode'', Str ''A1'')]\<rparr>],
          corporateUsers =
            [\<lparr>corporate_id = 31, corporate_userId = 11,
              corporate_data = [(''companyId'', Str ''c1'')]\<rparr>],
          sessions = [\<lparr>session_id = 41, session_userId = 11, session_token = ''tokenA'',
                       session_expiresAt = 3600000\<rparr>],
          otpCodes = []\<rparr>"

text \<open>\<open>db2\<close>: two users, no OTP code yet.\<close>

definition db2 :: db where
  "db2 = \<lparr>users = [alice, bob], agents = [], corporateUsers = [], sessions = [], otpCodes = []\<rparr>"

text \<open>
  \<open>db3\<close>: \<open>db2\<close> with two password-reset codes, one for each user, both \<open>123456\<close>.
  \<open>db4\<close>: \<open>db3\<close> after the first code was used to set the password \<open>new1\<close>.
\<close>

definition db3 :: db where
  "db3 = \<lparr>users = [alice, bob], agents = [], corporateUsers = [], sessions = [],
          otpCodes =
            [\<lparr>otp_id = 1, otp_userId = 11, otp_code = ''123456'', otp_type = PASSWORD_RESET,
               otp_expiresAt = 900005, otp_verified = False\<rparr>,
             \<lparr>otp_id = 2, otp_userId = 12, otp_code = ''123456'', otp_type = PASSWORD_RESET,
               otp_expiresAt = 900006, otp_verified = False\<rparr>]\<rparr>"

definition db4 :: db where
  "db4 = \<lparr>users =
            [\<lparr>user_id = 11,
               user_data = [(''email'', Str ''a@x.com''), (''password'', Str ''$2b$10$new1'')]\<rparr>,
             bob],
          agents = [], corporateUsers = [], sessions = [],
          otpCodes =
            [\<lparr>otp_id = 1, otp_userId = 11, otp_code = ''123456'', otp_type = PASSWORD_RESET,
               otp_expiresAt = 900005, otp_verified = True\<rparr>,
             \<lparr>otp_id = 2, otp_userId = 12, otp_code = ''123456'', otp_type = PASSWORD_RESET,
               otp_expiresAt = 900006, otp_verified = False\<rparr>]\<rparr>"

section \<open>Helper facts about the tables\<close>

lemma find_user_by_id:
  "find P us = Some u \<Longrightarrow> find (\<lambda>v. user_id v = user_id u) us \<noteq> None"
  by (auto simp: find_Some_iff find_None_iff in_set_conv_nth)

lemma generateToken_fails:
  "generateToken e d now userId = (Inl (PrismaError (NotNullViolation ''userId'')), d)"
  by (simp add: generateToken_def generateToken_data_def session_create_def)

lemma logout_ok: "fst (logout d t) = Inr ()"
  by (simp add: logout_def split: sum.splits)

lemma logout_sessions:
  "sessions (snd (logout d t)) = filter (\<lambda>s. session_token s \<noteq> t) (sessions d)"
proof (cases "find (\<lambda>s. session_token s = t) (sessions d)")
  case None
  then have "\<forall>s \<in> set (sessions d). session_token s \<noteq> t"
    by (simp add: find_None_iff)
  then have "filter (\<lambda>s. session_token s \<noteq> t) (sessions d) = sessions d"
    by (simp add: filter_id_conv)
  with None show ?thesis
    by (simp add: logout_def session_delete_def)
next
  case (Some s)
  then show ?thesis
    by (simp add: logout_def session_delete_def)
qed

lemma logout_other_tables:
  "users (snd (logout d t)) = users d"
  "agents (snd (logout d t)) = agents d"
  "corporateUsers (snd (logout d t)) = corporateUsers d"
  "otpCodes (snd (logout d t)) = otpCodes d"
  by (simp_all add: logout_def session_delete_def split: sum.splits)

lemma validateToken_any_db: "fst (validateToken e d now t) = fst (validateToken e d' now t)"
  by (simp add: validateToken_def split: sum.splits)

lemma getUserInfo_tables:
  "users d' = users d \<Longrightarrow> agents d' = agents d \<Longrightarrow> corporateUsers d' = corporateUsers d
   \<Longrightarrow> fst (getUserInfo e d' now t) = fst (getUserInfo e d now t)"
  by (simp add: getUserInfo_def user_findById_def split: sum.splits option.splits)

lemma login_fails: "isl (fst (login e d now email password)) \<and> snd (login e d now email password) = d"
  by (simp add: login_def generateToken_fails split: option.splits jsval.splits)

lemma refreshToken_fails: "isl (fst (refreshToken e d now t)) \<and> snd (refreshToken e d now t) = d"
  by (simp add: refreshToken_def generateToken_fails split: sum.splits)

section \<open>validateToken\<close>

text \<open>
  C6. \<open>validateToken\<close> never throws: for every input string it resolves to a boolean,
  \<open>true\<close> exactly when \<open>jwt.verify\<close> accepts the token (signature and embedded expiry) and
  \<open>false\<close> on every error of \<open>jwt.verify\<close>; it leaves the database as it is, and its
  result is the same on any other database: it neither reads nor writes the sessions
  table or any other table.
\<close>

theorem validateToken_total:
  "fst (validateToken e d now t) =
     Inr (case jwt_verify e t secret now of Inr _ \<Rightarrow> True | Inl _ \<Rightarrow> False)
   \<and> snd (validateToken e d now t) = d
   \<and> fst (validateToken e d' now t) = fst (validateToken e d now t)"
  by (simp add: validateToken_def split: sum.splits)

theorem validateToken_total_witness:
  "fst (validateToken env0 db1 5 ''tokenA'') = Inr True
   \<and> fst (validateToken env0 db1 3600000 ''tokenA'') = Inr False
   \<and> fst (validateToken env0 db1 5 ''garbage'') = Inr False
   \<and> snd (validateToken env0 db1 5 ''tokenA'') = db1
   \<and> fst (validateToken env0 db0 5 ''tokenA'') = fst (validateToken env0 db1 5 ''tokenA'')"
  using validateToken_total [of env0 db1 5 "''tokenA''" db0]
    validateToken_total [of env0 db1 3600000 "''tokenA''" db0]
    validateToken_total [of env0 db1 5 "''garbage''" db0]
  by (simp add: env0_def secret_def)

section \<open>logout\<close>

text \<open>
  C7. \<open>logout\<close> always succeeds, whether or not a session row has the token, and removes
  exactly the rows with that token. For a token that \<open>jwt.verify\<close> accepts at some
  instant, \<open>validateToken\<close> gives the same result after the logout as before, namely
  \<open>true\<close>, and \<open>getUserInfo\<close> gives the result it gave before the logout; when the
  payload of the token carries a \<open>userId\<close>, that result is not the rejection of the
  token. (A verified token without \<open>userId\<close> validates as well, before and after, and
  \<open>getUserInfo\<close> rejects it before and after.)
\<close>

theorem logout_keeps_token_valid:
  assumes "jwt_verify e t secret now' = Inr payload"
  shows "fst (logout d t) = Inr ()
   \<and> sessions (snd (logout d t)) = filter (\<lambda>s. session_token s \<noteq> t) (sessions d)
   \<and> fst (validateToken e (snd (logout d t)) now' t) = fst (validateToken e d now' t)
   \<and> fst (validateToken e (snd (logout d t)) now' t) = Inr True
   \<and> fst (getUserInfo e (snd (logout d t)) now' t) = fst (getUserInfo e d now' t)
   \<and> (\<forall>userId. payload = Some userId \<longrightarrow>
         fst (getUserInfo e (snd (logout d t)) now' t)
           \<noteq> Inl (UnauthorizedException ''Invalid token''))"
proof -
  have v: "fst (validateToken e (snd (logout d t)) now' t) = Inr True"
    using assms by (simp add: validateToken_def)
  have g: "fst (getUserInfo e (snd (logout d t)) now' t) = fst (getUserInfo e d now' t)"
    by (rule getUserInfo_tables) (simp_all add: logout_other_tables)
  have n: "\<forall>userId. payload = Some userId \<longrightarrow>
      fst (getUserInfo e d now' t) \<noteq> Inl (UnauthorizedException ''Invalid token'')"
    using assms by (simp add: getUserInfo_def split: option.splits)
  show ?thesis
    using v g n logout_ok logout_sessions validateToken_any_db by metis
qed

theorem logout_keeps_token_valid_witness:
  "jwt_verify env0 ''tokenA'' secret 10 = Inr (Some 11)
   \<and> sessions db1 \<noteq> []
   \<and> fst (logout db1 ''tokenA'') = Inr ()
   \<and> sessions (snd (logout db1 ''tokenA'')) = []
   \<and> fst (validateToken env0 (snd (logout db1 ''tokenA'')) 10 ''tokenA'') = Inr True
   \<and> fst (getUserInfo env0 (snd (logout db1 ''tokenA'')) 10 ''tokenA'')
       \<noteq> Inl (UnauthorizedException ''Invalid token'')
   \<and> fst (logout db0 ''tokenA'') = Inr ()
   \<and> fst (validateToken env0 (snd (logout db0 ''tokenA'')) 10 ''tokenA'') = Inr True
   \<and> jwt_verify env0 ''tokenB'' secret 10 = Inr None
   \<and> fst (validateToken env0 (snd (logout db1 ''tokenB'')) 10 ''tokenB'') = Inr True
   \<and> fst (getUserInfo env0 db1 10 ''tokenB'') = Inl (UnauthorizedException ''Invalid token'')
   \<and> fst (getUserInfo env0 (snd (logout db1 ''tokenB'')) 10 ''tokenB'')
       = Inl (UnauthorizedException ''Invalid token'')"
proof -
  have h: "jwt_verify env0 ''tokenA'' secret 10 = Inr (Some 11)"
    by (simp add: env0_def secret_def)
  have h': "jwt_verify env0 ''tokenB'' secret 10 = Inr None"
    by (simp add: env0_def secret_def)
  have s: "sessions db1 =
      [\<lparr>session_id = 41, session_userId = 11, session_token = ''tokenA'',
        session_expiresAt = 3600000\<rparr>]"
    by (simp add: db1_def)
  have b: "fst (getUserInfo env0 db1 10 ''tokenB'') = Inl (UnauthorizedException ''Invalid token'')"
    by (simp add: getUserInfo_def h')
  show ?thesis
    using h h' b logout_keeps_token_valid [OF h, of db1] logout_keeps_token_valid [OF h, of db0]
      logout_keeps_token_valid [OF h', of db1]
    by (auto simp add: s validateToken_def)
qed

section \<open>register\<close>

lemma user_create_tables:
  assumes "user_create d data = Inr (u, d')"
  shows "d' = d\<lparr>users := users d @ [u]\<rparr>"
    and "u = \<lparr>user_id = fresh_id (map user_id (users d)), user_data = data\<rparr>"
  using assms by (auto simp: user_create_def Let_def split: if_splits option.splits)

text \<open>A payload that is accepted holds columns only.\<close>

lemma payload_fields_are_columns:
  assumes "payload_error cols data = None" and "map_of data k = Some v"
  shows "map_of cols k \<noteq> None"
proof -
  from assms(1) have "list_all (field_ok cols) data"
    by (simp add: payload_error_def split: if_splits)
  moreover from assms(2) have "(k, v) \<in> set data"
    by (rule map_of_SomeD)
  ultimately have "field_ok cols (k, v)"
    by (simp add: list_all_iff)
  then show ?thesis
    by (auto simp: field_ok_def split: option.splits)
qed

text \<open>\<open>users\<close> has no column \<open>userType\<close>: a payload with that field is not accepted.\<close>

lemma user_create_no_userType:
  assumes "user_create d data = Inr r"
  shows "map_of data ''userType'' = None"
proof (rule ccontr)
  assume "map_of data ''userType'' \<noteq> None"
  then obtain v where v: "map_of data ''userType'' = Some v"
    by auto
  from assms have "payload_error users_columns data = None"
    by (simp add: user_create_def split: option.splits)
  from payload_fields_are_columns [OF this v] show False
    by (simp add: users_columns_def)
qed

lemma register_profile_standard:
  "map_of userDetails ''userType'' = None \<Longrightarrow> register_profile tx userDetails uid = Inr tx"
  by (simp add: register_profile_def)

lemma otpCode_create_tables:
  assumes "otpCode_create d od = Inr d'"
  shows "users d' = users d" and "sessions d' = sessions d" and "agents d' = agents d"
    and "corporateUsers d' = corporateUsers d"
  using assms by (auto simp: otpCode_create_def split: if_splits)

text \<open>
  The callback of \<open>register\<close>, step by step: either it leaves the database as it found
  it, or it has created the user, and then it has created no role profile, since the
  payload that \<open>user.create\<close> accepted has no \<open>userType\<close> for the \<open>switch\<close> to see.
\<close>

lemma register_tx_cases [consumes 1, case_names unchanged created]:
  assumes "register_tx e now userDetails0 salt rnd tx = (res, tx')"
  obtains "tx' = tx"
  | password newUser tx1 where
      "map_of userDetails0 ''password'' = Some (Str password)"
      "user_create tx
         (AList.update ''password'' (Str (bcrypt_hash e password 10 salt))
            (AList.delete ''username'' userDetails0)) = Inr (newUser, tx1)"
      "users tx' = users tx1" "agents tx' = agents tx"
      "corporateUsers tx' = corporateUsers tx" "sessions tx' = sessions tx"
proof (cases "map_of userDetails0 ''password''")
  case None
  with assms have "tx' = tx" by (simp add: register_tx_def)
  then show thesis by (rule that(1))
next
  case (Some v)
  show thesis
  proof (cases v)
    case (Bool b)
    with Some assms have "tx' = tx" by (simp add: register_tx_def)
    then show thesis by (rule that(1))
  next
    case (Str password)
    let ?ud = "AList.delete ''username'' userDetails0"
    let ?data = "AList.update ''password'' (Str (bcrypt_hash e password 10 salt)) ?ud"
    note pw = Some [unfolded Str]
    show thesis
    proof (cases "user_create tx ?data")
      case (Inl err)
      with pw assms have "tx' = tx" by (simp add: register_tx_def)
      then show thesis by (rule that(1))
    next
      case (Inr r)
      obtain newUser tx1 where r: "r = (newUser, tx1)" by (cases r)
      note uc = Inr [unfolded r]
      have t1: "agents tx1 = agents tx" "corporateUsers tx1 = corporateUsers tx"
        "sessions tx1 = sessions tx"
        using user_create_tables(1) [OF uc] by simp_all
      have "map_of ?data ''userType'' = None"
        using uc by (rule user_create_no_userType)
      then have "map_of ?ud ''userType'' = None"
        by (simp add: update_conv')
      then have rp: "register_profile tx1 ?ud (user_id newUser) = Inr tx1"
        by (rule register_profile_standard)
      show thesis
      proof (cases "otpCode_create tx1
             \<lparr>od_userId = user_id newUser, od_code = toString (100000 + rnd),
              od_type = EMAIL_VERIFICATION, od_expiresAt = setMinutes_plus15 e now\<rparr>")
        case (Inl err)
        with pw uc rp assms have "tx' = tx1" by (simp add: register_tx_def)
        with t1 show thesis by (simp add: that(2) [OF pw uc])
      next
        case (Inr tx3)
        with pw uc rp assms have "tx' = tx3"
          by (simp add: register_tx_def generateToken_fails)
        with otpCode_create_tables [OF Inr] t1 show thesis
          by (simp add: that(2) [OF pw uc])
      qed
    qed
  qed
qed

lemma register_tx_users:
  assumes "register_tx e now userDetails salt rnd tx = (res, tx')"
    and "map_of userDetails ''password'' = Some (Str password)"
  shows "users tx' = users tx
     \<or> users tx' = users tx @
          [\<lparr>user_id = fresh_id (map user_id (users tx)),
            user_data = AList.update ''password'' (Str (bcrypt_hash e password 10 salt))
                          (AList.delete ''username'' userDetails)\<rparr>]"
  using assms(1)
proof (cases rule: register_tx_cases)
  case unchanged
  then show ?thesis by simp
next
  case (created p newUser tx1)
  with assms(2) show ?thesis
    using user_create_tables [OF created(2)] by simp
qed

lemma register_tx_sessions:
  assumes "register_tx e now userDetails salt rnd tx = (res, tx')"
  shows "sessions tx' = sessions tx"
  using assms by (cases rule: register_tx_cases) simp_all


lemma register_tx_fails: "isl (fst (register_tx e now userDetails salt rnd tx))"
  by (simp add: register_tx_def Let_def generateToken_fails
      split: option.splits jsval.splits sum.splits prod.splits)

lemma register_fails:
  "isl (fst (register e d now userDetails salt rnd)) \<and> snd (register e d now userDetails salt rnd) = d"
proof (cases "register_tx e now userDetails salt rnd d")
  case (Pair res d')
  with register_tx_fails [of e now userDetails salt rnd d] obtain err where "res = Inl err"
    by (cases res) simp_all
  with Pair register_tx_sessions [OF Pair] show ?thesis
    by (simp add: register_def transaction_def)
qed

lemma transaction_rollback:
  assumes "\<And>err d'. body d = (Inl err, d') \<Longrightarrow> sessions d' = sessions d"
    and "fst (transaction body d) = Inl err"
  shows "snd (transaction body d) = d"
proof (cases "body d")
  case (Pair res d')
  with assms(2) obtain err' where "res = Inl err'"
    by (cases res) (simp_all add: transaction_def)
  with Pair assms(1) show ?thesis
    by (simp add: transaction_def)
qed

text \<open>
  C2. \<open>register\<close> is atomic: whenever it throws, at whatever step (user creation, role
  profile creation, OTP creation or token issuance), the database after the call is
  the database before it: no user row, profile row or OTP row of the failed
  registration remains, and no session row either.
\<close>

theorem register_atomic:
  assumes "fst (register e d now userDetails salt rnd) = Inl err"
  shows "snd (register e d now userDetails salt rnd) = d"
  using assms unfolding register_def
  by (rule transaction_rollback [rotated]) (rule register_tx_sessions)

theorem register_atomic_witness:
  "fst (register env0 db0 5
          [(''username'', Str ''bob''), (''email'', Str ''b@x.com''), (''password'', Str ''pw''),
           (''firstName'', Str ''Bob''), (''lastName'', Str ''Roe'')] 0 23456)
     = Inl (PrismaError (NotNullViolation ''userId''))
   \<and> snd (register_tx env0 5
          [(''username'', Str ''bob''), (''email'', Str ''b@x.com''), (''password'', Str ''pw''),
           (''firstName'', Str ''Bob''), (''lastName'', Str ''Roe'')] 0 23456 db0)
     = db0\<lparr>users := [alice,
             \<lparr>user_id = 12,
               user_data = [(''email'', Str ''b@x.com''), (''password'', Str ''$2b$10$pw''),
                            (''firstName'', Str ''Bob''), (''lastName'', Str ''Roe'')]\<rparr>],
           otpCodes := [\<lparr>otp_id = 1, otp_userId = 12, otp_code = ''123456'',
                         otp_type = EMAIL_VERIFICATION, otp_expiresAt = 900005,
                         otp_verified = False\<rparr>]\<rparr>
   \<and> snd (register env0 db0 5
          [(''username'', Str ''bob''), (''email'', Str ''b@x.com''), (''password'', Str ''pw''),
           (''firstName'', Str ''Bob''), (''lastName'', Str ''Roe'')] 0 23456) = db0
   \<and> fst (register env0 db0 5
          [(''username'', Str ''al''), (''email'', Str ''a@x.com''), (''password'', Str ''pw''),
           (''firstName'', Str ''Al''), (''lastName'', Str ''Doe'')] 0 0)
     = Inl (PrismaError (UniqueConstraint ''email''))
   \<and> snd (register env0 db0 5
          [(''username'', Str ''al''), (''email'', Str ''a@x.com''), (''password'', Str ''pw''),
           (''firstName'', Str ''Al''), (''lastName'', Str ''Doe'')] 0 0) = db0"
proof -
  let ?std = "[(''username'', Str ''bob''), (''email'', Str ''b@x.com''), (''password'', Str ''pw''),
           (''firstName'', Str ''Bob''), (''lastName'', Str ''Roe'')]"
  let ?dup = "[(''username'', Str ''al''), (''email'', Str ''a@x.com''), (''password'', Str ''pw''),
           (''firstName'', Str ''Al''), (''lastName'', Str ''Doe'')]"
  have t: "toString 123456 = ''123456''"
    by (simp add: toString.simps)
  have x: "setMinutes_plus15 env0 5 = 900005"
    by (simp add: setMinutes_plus15_def UTC_def LocalTime_def env0_def)
  have h: "bcrypt_hash env0 ''pw'' 10 0 = ''$2b$10$pw''"
    by (simp add: env0_def)
  have tx0: "register_tx env0 5 ?std 0 23456 db0 =
      (Inl (PrismaError (NotNullViolation ''userId'')),
       db0\<lparr>users := [alice,
             \<lparr>user_id = 12,
               user_data = [(''email'', Str ''b@x.com''), (''password'', Str ''$2b$10$pw''),
                            (''firstName'', Str ''Bob''), (''lastName'', Str ''Roe'')]\<rparr>],
           otpCodes := [\<lparr>otp_id = 1, otp_userId = 12, otp_code = ''123456'',
                         otp_type = EMAIL_VERIFICATION, otp_expiresAt = 900005,
                         otp_verified = False\<rparr>]\<rparr>)"
    by (simp add: register_tx_def user_create_def payload_error_def field_ok_def
        users_columns_def email_taken_def register_profile_def
        otpCode_create_def user_findById_def generateToken_fails t x h
        db0_def alice_def fresh_id_def Let_def)
  have f0: "fst (register env0 db0 5 ?std 0 23456) = Inl (PrismaError (NotNullViolation ''userId''))"
    by (simp add: register_def transaction_def tx0)
  have tx: "register_tx env0 5 ?dup 0 0 db0 = (Inl (PrismaError (UniqueConstraint ''email'')), db0)"
    by (simp add: register_tx_def user_create_def payload_error_def field_ok_def
        users_columns_def email_taken_def env0_def db0_def alice_def Let_def)
  have f: "fst (register env0 db0 5 ?dup 0 0) = Inl (PrismaError (UniqueConstraint ''email''))"
    by (simp add: register_def transaction_def tx)
  show ?thesis
    using f0 register_atomic [OF f0] f register_atomic [OF f] by (simp add: tx0)
qed



section \<open>login\<close>

lemma login_unknown_email:
  "user_findByEmail d email = None \<Longrightarrow>
   login e d now email password = (Inl (UnauthorizedException ''Invalid credentials''), d)"
  by (simp add: login_def)

lemma login_known_email:
  "user_findByEmail d email = Some u \<Longrightarrow> map_of (user_data u) ''password'' = Some (Str digest) \<Longrightarrow>
   login e d now email password =
     (if bcrypt_compare e password digest
      then generateToken e d now (Some (user_id u))
      else (Inl (UnauthorizedException ''Invalid credentials''), d))"
  by (simp add: login_def)

text \<open>
  C3. On the database with the one user \<open>a@x.com\<close>, whose stored digest is that of
  \<open>secret123\<close>: an unknown email and a wrong password are refused with the same
  exception, \<open>UnauthorizedException('Invalid credentials')\<close>; the right password passes
  both checks, and the login then throws the error of the session insert instead of
  resolving to a token.
\<close>

theorem login_valid_credentials_no_token:
  "user_findByEmail db0 ''a@x.com'' = Some alice
   \<and> bcrypt_compare env0 ''secret123'' ''$2b$10$secret123''
   \<and> login env0 db0 5 ''nobody@x.com'' ''secret123'' =
        (Inl (UnauthorizedException ''Invalid credentials''), db0)
   \<and> login env0 db0 5 ''a@x.com'' ''wrong'' =
        (Inl (UnauthorizedException ''Invalid credentials''), db0)
   \<and> login env0 db0 5 ''a@x.com'' ''secret123'' =
        (Inl (PrismaError (NotNullViolation ''userId'')), db0)"
proof -
  have n: "user_findByEmail db0 ''nobody@x.com'' = None"
    by (simp add: user_findByEmail_def db0_def alice_def)
  have s: "user_findByEmail db0 ''a@x.com'' = Some alice"
    by (simp add: user_findByEmail_def db0_def alice_def)
  have p: "map_of (user_data alice) ''password'' = Some (Str ''$2b$10$secret123'')"
    by (simp add: alice_def)
  show ?thesis
    using login_unknown_email [OF n] login_known_email [OF s p, of env0 5 "''wrong''"]
      login_known_email [OF s p, of env0 5 "''secret123''"] s
    by (simp add: env0_def generateToken_fails alice_def)
qed

section \<open>generateToken\<close>

text \<open>
  C10. The payload that \<open>generateToken\<close> gives to \<open>session.create\<close> holds the signed
  token and an expiry one hour (3600000 ms) after the call, and no \<open>userId\<close>. The
  sessions table requires \<open>userId\<close>, so the insert is refused: \<open>generateToken\<close> throws
  and writes nothing, and so do its three callers, \<open>login\<close>, \<open>refreshToken\<close> and
  \<open>register\<close>: none of them resolves to a token and none adds a session row.
\<close>

theorem generateToken_session_without_userId:
  "generateToken_data token now = \<lparr>sd_token = token, sd_userId = None, sd_expiresAt = now + 3600000\<rparr>
   \<and> session_create d (generateToken_data token now) =
        Inl (PrismaError (NotNullViolation ''userId''))
   \<and> generateToken e d now userId = (Inl (PrismaError (NotNullViolation ''userId'')), d)
   \<and> isl (fst (login e d now email password))
   \<and> sessions (snd (login e d now email password)) = sessions d
   \<and> isl (fst (refreshToken e d now t))
   \<and> sessions (snd (refreshToken e d now t)) = sessions d
   \<and> isl (fst (register e d now userDetails salt rnd))
   \<and> sessions (snd (register e d now userDetails salt rnd)) = sessions d"
  using login_fails [of e d now email password] refreshToken_fails [of e d now t]
    register_fails [of e d now userDetails salt rnd]
  by (simp add: generateToken_fails generateToken_data_def session_create_def)

section \<open>requestPasswordReset\<close>

lemma setMinutes_plus15_fixed_offset:
  "(\<And>t isUTC. LocalTZA e t isUTC = offset) \<Longrightarrow> setMinutes_plus15 e now = now + 900000"
  by (simp add: setMinutes_plus15_def UTC_def LocalTime_def)

lemma requestPasswordReset_unknown:
  "user_findByEmail d email = None \<Longrightarrow> requestPasswordReset e d now email rnd = (Inr (), d)"
  by (simp add: requestPasswordReset_def)

lemma requestPasswordReset_known:
  assumes "user_findByEmail d email = Some u"
  shows "requestPasswordReset e d now email rnd =
           (Inr (), d\<lparr>otpCodes := otpCodes d @
              [\<lparr>otp_id = fresh_id (map otp_id (otpCodes d)),
                otp_userId = user_id u,
                otp_code = toString (100000 + rnd),
                otp_type = PASSWORD_RESET,
                otp_expiresAt = setMinutes_plus15 e now,
                otp_verified = False\<rparr>]\<rparr>)"
proof -
  from assms have "user_findById d (user_id u) \<noteq> None"
    unfolding user_findByEmail_def user_findById_def by (rule find_user_by_id)
  with assms show ?thesis
    by (simp add: requestPasswordReset_def otpCode_create_def)
qed

text \<open>
  C4. For an email that no user row has, \<open>requestPasswordReset\<close> resolves and leaves the
  database as it was; for the email of a user it resolves and adds exactly one
  \<open>PASSWORD_RESET\<close> row, of that user, whose expiry is \<open>setMinutes(getMinutes() + 15)\<close>
  of the instant of the call.
  The expiry of that row is fifteen minutes after the call on a host that keeps UTC,
  but not on every host: the code adds the fifteen minutes on the local clock. On the
  host of \<open>env_dst\<close>, a request at instant 21000000 (01:50 local time, ten minutes
  before the clock is set back) gets the expiry 25500000, which is 75 minutes later; a
  request at instant 23400000 (01:30 local time, after the clock was set back) gets the
  expiry 20700000, which is 45 minutes before the request: the code is expired when it
  is created.
\<close>

theorem requestPasswordReset_expiry_local_clock:
  "requestPasswordReset e d now email rnd =
     (case user_findByEmail d email of
        None \<Rightarrow> (Inr (), d)
      | Some u \<Rightarrow>
          (Inr (), d\<lparr>otpCodes := otpCodes d @
             [\<lparr>otp_id = fresh_id (map otp_id (otpCodes d)),
               otp_userId = user_id u,
               otp_code = toString (100000 + rnd),
               otp_type = PASSWORD_RESET,
               otp_expiresAt = setMinutes_plus15 e now,
               otp_verified = False\<rparr>]\<rparr>))
   \<and> requestPasswordReset env0 db0 5 ''nobody@x.com'' 23456 = (Inr (), db0)
   \<and> requestPasswordReset env0 db0 21000000 ''a@x.com'' 23456 =
       (Inr (), db0\<lparr>otpCodes :=
          [\<lparr>otp_id = 1, otp_userId = 11, otp_code = ''123456'', otp_type = PASSWORD_RESET,
            otp_expiresAt = 21900000, otp_verified = False\<rparr>]\<rparr>)
   \<and> requestPasswordReset env_dst db0 21000000 ''a@x.com'' 23456 =
       (Inr (), db0\<lparr>otpCodes :=
          [\<lparr>otp_id = 1, otp_userId = 11, otp_code = ''123456'', otp_type = PASSWORD_RESET,
            otp_expiresAt = 25500000, otp_verified = False\<rparr>]\<rparr>)
   \<and> requestPasswordReset env_dst db0 23400000 ''a@x.com'' 23456 =
       (Inr (), db0\<lparr>otpCodes :=
          [\<lparr>otp_id = 1, otp_userId = 11, otp_code = ''123456'', otp_type = PASSWORD_RESET,
            otp_expiresAt = 20700000, otp_verified = False\<rparr>]\<rparr>)"
proof -
  have n: "user_findByEmail db0 ''nobody@x.com'' = None"
    by (simp add: user_findByEmail_def db0_def alice_def)
  have s: "user_findByEmail db0 ''a@x.com'' = Some alice"
    by (simp add: user_findByEmail_def db0_def alice_def)
  have t: "toString 123456 = ''123456''"
    by (simp add: toString.simps)
  have x: "setMinutes_plus15 env0 21000000 = 21900000"
    "setMinutes_plus15 env_dst 21000000 = 25500000"
    "setMinutes_plus15 env_dst 23400000 = 20700000"
    by (simp_all add: setMinutes_plus15_def UTC_def LocalTime_def env_dst_def env0_def)
  have i: "otpCodes db0 = []" "user_id alice = 11"
    by (simp_all add: db0_def alice_def)
  have g: "requestPasswordReset e d now email rnd =
     (case user_findByEmail d email of
        None \<Rightarrow> (Inr (), d)
      | Some u \<Rightarrow>
          (Inr (), d\<lparr>otpCodes := otpCodes d @
             [\<lparr>otp_id = fresh_id (map otp_id (otpCodes d)),
               otp_userId = user_id u,
               otp_code = toString (100000 + rnd),
               otp_type = PASSWORD_RESET,
               otp_expiresAt = setMinutes_plus15 e now,
               otp_verified = False\<rparr>]\<rparr>))"
    by (cases "user_findByEmail d email")
      (simp_all add: requestPasswordReset_unknown requestPasswordReset_known)
  have c: "requestPasswordReset env0 db0 5 ''nobody@x.com'' 23456 = (Inr (), db0)
   \<and> requestPasswordReset env0 db0 21000000 ''a@x.com'' 23456 =
       (Inr (), db0\<lparr>otpCodes :=
          [\<lparr>otp_id = 1, otp_userId = 11, otp_code = ''123456'', otp_type = PASSWORD_RESET,
            otp_expiresAt = 21900000, otp_verified = False\<rparr>]\<rparr>)
   \<and> requestPasswordReset env_dst db0 21000000 ''a@x.com'' 23456 =
       (Inr (), db0\<lparr>otpCodes :=
          [\<lparr>otp_id = 1, otp_userId = 11, otp_code = ''123456'', otp_type = PASSWORD_RESET,
            otp_expiresAt = 25500000, otp_verified = False\<rparr>]\<rparr>)
   \<and> requestPasswordReset env_dst db0 23400000 ''a@x.com'' 23456 =
       (Inr (), db0\<lparr>otpCodes :=
          [\<lparr>otp_id = 1, otp_userId = 11, otp_code = ''123456'', otp_type = PASSWORD_RESET,
            otp_expiresAt = 20700000, otp_verified = False\<rparr>]\<rparr>)"
    by (simp add: requestPasswordReset_unknown [OF n] requestPasswordReset_known [OF s]
        t x i fresh_id_def)
  from g c show ?thesis
    by (rule conjI)
qed

section \<open>getUserInfo\<close>

text \<open>
  C8. \<open>getUserInfo\<close> throws \<open>UnauthorizedException('Invalid token')\<close> when the token does
  not decode: when \<open>jwt.verify\<close> refuses it, and also when it verifies but its payload
  has no \<open>userId\<close> to look up. It resolves to \<open>null\<close> when no user row has the decoded
  id. Otherwise it loads the user with both profiles and resolves to the corporate
  profile when there is one (whether or not there is an agent profile), else to the
  agent profile when there is one, else to the user. It never changes the database.
\<close>

theorem getUserInfo_precedence:
  "(\<forall>err. jwt_verify e t secret now = Inl err \<longrightarrow>
       fst (getUserInfo e d now t) = Inl (UnauthorizedException ''Invalid token''))
   \<and> (jwt_verify e t secret now = Inr None \<longrightarrow>
       fst (getUserInfo e d now t) = Inl (UnauthorizedException ''Invalid token''))
   \<and> (\<forall>userId. jwt_verify e t secret now = Inr (Some userId) \<and> user_findById d userId = None \<longrightarrow>
       fst (getUserInfo e d now t) = Inr None)
   \<and> (\<forall>userId u c. jwt_verify e t secret now = Inr (Some userId)
         \<and> user_findById d userId = Some u
         \<and> find (\<lambda>c. corporate_userId c = user_id u) (corporateUsers d) = Some c \<longrightarrow>
       fst (getUserInfo e d now t) = Inr (Some (CorporateProfile c)))
   \<and> (\<forall>userId u a. jwt_verify e t secret now = Inr (Some userId)
         \<and> user_findById d userId = Some u
         \<and> find (\<lambda>c. corporate_userId c = user_id u) (corporateUsers d) = None
         \<and> find (\<lambda>a. agent_userId a = user_id u) (agents d) = Some a \<longrightarrow>
       fst (getUserInfo e d now t) = Inr (Some (AgentProfile a)))
   \<and> (\<forall>userId u. jwt_verify e t secret now = Inr (Some userId)
         \<and> user_findById d userId = Some u
         \<and> find (\<lambda>c. corporate_userId c = user_id u) (corporateUsers d) = None
         \<and> find (\<lambda>a. agent_userId a = user_id u) (agents d) = None \<longrightarrow>
       fst (getUserInfo e d now t) = Inr (Some (BaseUser u)))
   \<and> snd (getUserInfo e d now t) = d"
  by (simp add: getUserInfo_def split: sum.splits option.splits)

theorem getUserInfo_precedence_witness:
  "fst (getUserInfo env0 db1 5 ''garbage'') = Inl (UnauthorizedException ''Invalid token'')
   \<and> fst (getUserInfo env0 db1 3600000 ''tokenA'') = Inl (UnauthorizedException ''Invalid token'')
   \<and> fst (getUserInfo env0 db1 5 ''tokenB'') = Inl (UnauthorizedException ''Invalid token'')
   \<and> fst (getUserInfo env0 (db1\<lparr>users := []\<rparr>) 5 ''tokenA'') = Inr None
   \<and> fst (getUserInfo env0 db1 5 ''tokenA'') =
       Inr (Some (CorporateProfile \<lparr>corporate_id = 31, corporate_userId = 11,
                                    corporate_data = [(''companyId'', Str ''c1'')]\<rparr>))
   \<and> fst (getUserInfo env0 (db1\<lparr>corporateUsers := []\<rparr>) 5 ''tokenA'') =
       Inr (Some (AgentProfile \<lparr>agent_id = 21, agent_userId = 11,
                                agent_data = [(''agentCode'', Str ''A1'')]\<rparr>))
   \<and> fst (getUserInfo env0 db0 5 ''tokenA'') = Inr (Some (BaseUser alice))"
proof -
  have j: "jwt_verify env0 ''garbage'' secret 5 = Inl JsonWebTokenError"
    "jwt_verify env0 ''tokenA'' secret 3600000 = Inl TokenExpiredError"
    "jwt_verify env0 ''tokenB'' secret 5 = Inr None"
    "jwt_verify env0 ''tokenA'' secret 5 = Inr (Some 11)"
    by (simp_all add: env0_def secret_def)
  have u: "user_findById (db1\<lparr>users := []\<rparr>) 11 = None"
    "user_findById db1 11 = Some alice"
    "user_findById (db1\<lparr>corporateUsers := []\<rparr>) 11 = Some alice"
    "user_findById db0 11 = Some alice"
    by (simp_all add: user_findById_def db1_def db0_def alice_def)
  have c: "find (\<lambda>c. corporate_userId c = user_id alice) (corporateUsers db1) =
        Some \<lparr>corporate_id = 31, corporate_userId = 11, corporate_data = [(''companyId'', Str ''c1'')]\<rparr>"
    "find (\<lambda>c. corporate_userId c = user_id alice) (corporateUsers db0) = None"
    by (simp_all add: db1_def db0_def alice_def)
  have a: "find (\<lambda>a. agent_userId a = user_id alice) (agents db1) =
        Some \<lparr>agent_id = 21, agent_userId = 11, agent_data = [(''agentCode'', Str ''A1'')]\<rparr>"
    "find (\<lambda>a. agent_userId a = user_id alice) (agents db0) = None"
    by (simp_all add: db1_def db0_def alice_def)
  show ?thesis
    using getUserInfo_precedence [of env0 "''garbage''" 5 db1]
      getUserInfo_precedence [of env0 "''tokenA''" 3600000 db1]
      getUserInfo_precedence [of env0 "''tokenB''" 5 db1]
      getUserInfo_precedence [of env0 "''tokenA''" 5 "db1\<lparr>users := []\<rparr>"]
      getUserInfo_precedence [of env0 "''tokenA''" 5 db1]
      getUserInfo_precedence [of env0 "''tokenA''" 5 "db1\<lparr>corporateUsers := []\<rparr>"]
      getUserInfo_precedence [of env0 "''tokenA''" 5 db0]
    by (simp add: j u c a)
qed

section \<open>verifyEmail, verifyPasswordReset\<close>

lemma user_update_otpCodes: "user_update d uid data = Inr d' \<Longrightarrow> otpCodes d' = otpCodes d"
  by (auto simp: user_update_def split: if_splits)

lemma otpCode_update_otpCodes:
  "otpCode_update d oid v = Inr d' \<Longrightarrow>
   otpCodes d' = map (\<lambda>otp. if otp_id otp = oid then otp\<lparr>otp_verified := v\<rparr> else otp) (otpCodes d)"
  by (auto simp: otpCode_update_def split: if_splits)

lemma findFirst_Some:
  "otpCode_findFirst d c k now = Some otp \<Longrightarrow> otp \<in> set (otpCodes d) \<and> otp_where c k now otp"
  by (auto simp: otpCode_findFirst_def find_Some_iff)

lemma findFirst_None:
  "otpCode_findFirst d c k now = None \<longleftrightarrow> \<not> (\<exists>x \<in> set (otpCodes d). otp_where c k now x)"
  by (auto simp: otpCode_findFirst_def find_None_iff)

text \<open>After the row \<open>oid\<close> is marked verified, the rows that match are the other rows that matched.\<close>

lemma findFirst_after_mark:
  assumes "otpCodes d' =
      map (\<lambda>otp. if otp_id otp = oid then otp\<lparr>otp_verified := True\<rparr> else otp) (otpCodes d)"
  shows "otpCode_findFirst d' c k now = None
     \<longleftrightarrow> \<not> (\<exists>x \<in> set (otpCodes d). otp_id x \<noteq> oid \<and> otp_where c k now x)"
  unfolding findFirst_None assms
  by (auto simp: otp_where_def)

lemma marked_row_present:
  assumes "otpCodes d' =
      map (\<lambda>x. if otp_id x = otp_id otp then x\<lparr>otp_verified := True\<rparr> else x) (otpCodes d)"
    and "otp \<in> set (otpCodes d)"
  shows "otp\<lparr>otp_verified := True\<rparr> \<in> set (otpCodes d')"
  unfolding assms(1) using assms(2) by force

lemma verifyEmail_rejects:
  "fst (verifyEmail d now c) = Inl (UnauthorizedException ''Invalid or expired verification token'')
   \<longleftrightarrow> otpCode_findFirst d c EMAIL_VERIFICATION now = None"
  by (auto simp: verifyEmail_def user_update_def otpCode_update_def
      split: option.splits sum.splits if_splits)

lemma verifyEmail_accepts:
  assumes "verifyEmail d now c = (Inr (), d')"
  shows "\<exists>otp. otpCode_findFirst d c EMAIL_VERIFICATION now = Some otp
     \<and> otpCodes d' =
         map (\<lambda>x. if otp_id x = otp_id otp then x\<lparr>otp_verified := True\<rparr> else x) (otpCodes d)"
  using assms
  by (auto simp: verifyEmail_def split: option.splits sum.splits
      dest!: user_update_otpCodes otpCode_update_otpCodes)

lemma verifyPasswordReset_rejects:
  "fst (verifyPasswordReset e d now c newPassword salt) =
     Inl (UnauthorizedException ''Invalid or expired token'')
   \<longleftrightarrow> otpCode_findFirst d c PASSWORD_RESET now = None"
  by (auto simp: verifyPasswordReset_def user_update_def otpCode_update_def Let_def
      split: option.splits sum.splits if_splits)

lemma verifyPasswordReset_accepts:
  assumes "verifyPasswordReset e d now c newPassword salt = (Inr (), d')"
  shows "\<exists>otp. otpCode_findFirst d c PASSWORD_RESET now = Some otp
     \<and> otpCodes d' =
         map (\<lambda>x. if otp_id x = otp_id otp then x\<lparr>otp_verified := True\<rparr> else x) (otpCodes d)"
  using assms
  by (auto simp: verifyPasswordReset_def Let_def split: option.splits sum.splits
      dest!: user_update_otpCodes otpCode_update_otpCodes)

text \<open>
  C1, as the code has it. Each OTP row is accepted at most once, but a code is not:
  rows are matched by code and type alone, and several rows may carry the same code.
  \<^item> A successful \<open>verifyEmail\<close> or \<open>verifyPasswordReset\<close> has matched a row with that
    code and type that was unverified and unexpired, and that row is verified afterwards.
  \<^item> A call with the same code on the resulting database, at any instant, is refused
    with the \<open>UnauthorizedException\<close> of an invalid or expired code exactly when no other
    row matches the code at that instant: the consumed row is never accepted again, and
    another unverified, unexpired row with the same code and type still is.
  \<^item> When every row with the code and type is verified or expired, the call is refused
    and the database is unchanged.
\<close>

theorem otp_row_single_use:
  "(verifyEmail d now c = (Inr (), d') \<longrightarrow>
      (\<exists>otp \<in> set (otpCodes d).
          otp_where c EMAIL_VERIFICATION now otp
        \<and> otp\<lparr>otp_verified := True\<rparr> \<in> set (otpCodes d')
        \<and> (\<forall>now'. fst (verifyEmail d' now' c) =
                     Inl (UnauthorizedException ''Invalid or expired verification token'')
             \<longleftrightarrow> \<not> (\<exists>x \<in> set (otpCodes d).
                       otp_id x \<noteq> otp_id otp \<and> otp_where c EMAIL_VERIFICATION now' x))))
   \<and> ((\<forall>x \<in> set (otpCodes d). otp_code x = c \<and> otp_type x = EMAIL_VERIFICATION \<longrightarrow>
          otp_verified x \<or> otp_expiresAt x \<le> now) \<longrightarrow>
       verifyEmail d now c =
         (Inl (UnauthorizedException ''Invalid or expired verification token''), d))
   \<and> (verifyPasswordReset e d now c newPassword salt = (Inr (), d') \<longrightarrow>
      (\<exists>otp \<in> set (otpCodes d).
          otp_where c PASSWORD_RESET now otp
        \<and> otp\<lparr>otp_verified := True\<rparr> \<in> set (otpCodes d')
        \<and> (\<forall>now' newPassword' salt'.
              fst (verifyPasswordReset e d' now' c newPassword' salt') =
                     Inl (UnauthorizedException ''Invalid or expired token'')
             \<longleftrightarrow> \<not> (\<exists>x \<in> set (otpCodes d).
                       otp_id x \<noteq> otp_id otp \<and> otp_where c PASSWORD_RESET now' x))))
   \<and> ((\<forall>x \<in> set (otpCodes d). otp_code x = c \<and> otp_type x = PASSWORD_RESET \<longrightarrow>
          otp_verified x \<or> otp_expiresAt x \<le> now) \<longrightarrow>
       verifyPasswordReset e d now c newPassword salt =
         (Inl (UnauthorizedException ''Invalid or expired token''), d))"
proof (intro conjI impI)
  assume "verifyEmail d now c = (Inr (), d')"
  from verifyEmail_accepts [OF this] obtain otp where
    f: "otpCode_findFirst d c EMAIL_VERIFICATION now = Some otp" and
    m: "otpCodes d' =
         map (\<lambda>x. if otp_id x = otp_id otp then x\<lparr>otp_verified := True\<rparr> else x) (otpCodes d)"
    by blast
  show "\<exists>otp \<in> set (otpCodes d).
          otp_where c EMAIL_VERIFICATION now otp
        \<and> otp\<lparr>otp_verified := True\<rparr> \<in> set (otpCodes d')
        \<and> (\<forall>now'. fst (verifyEmail d' now' c) =
                     Inl (UnauthorizedException ''Invalid or expired verification token'')
             \<longleftrightarrow> \<not> (\<exists>x \<in> set (otpCodes d).
                       otp_id x \<noteq> otp_id otp \<and> otp_where c EMAIL_VERIFICATION now' x))"
    using findFirst_Some [OF f] marked_row_present [OF m] findFirst_after_mark [OF m]
    by (intro bexI [of _ otp]) (simp_all add: verifyEmail_rejects)
next
  assume "\<forall>x \<in> set (otpCodes d). otp_code x = c \<and> otp_type x = EMAIL_VERIFICATION \<longrightarrow>
          otp_verified x \<or> otp_expiresAt x \<le> now"
  then have "otpCode_findFirst d c EMAIL_VERIFICATION now = None"
    unfolding findFirst_None by (auto simp: otp_where_def)
  then show "verifyEmail d now c =
         (Inl (UnauthorizedException ''Invalid or expired verification token''), d)"
    by (simp add: verifyEmail_def)
next
  assume "verifyPasswordReset e d now c newPassword salt = (Inr (), d')"
  from verifyPasswordReset_accepts [OF this] obtain otp where
    f: "otpCode_findFirst d c PASSWORD_RESET now = Some otp" and
    m: "otpCodes d' =
         map (\<lambda>x. if otp_id x = otp_id otp then x\<lparr>otp_verified := True\<rparr> else x) (otpCodes d)"
    by blast
  show "\<exists>otp \<in> set (otpCodes d).
          otp_where c PASSWORD_RESET now otp
        \<and> otp\<lparr>otp_verified := True\<rparr> \<in> set (otpCodes d')
        \<and> (\<forall>now' newPassword' salt'.
              fst (verifyPasswordReset e d' now' c newPassword' salt') =
                     Inl (UnauthorizedException ''Invalid or expired token'')
             \<longleftrightarrow> \<not> (\<exists>x \<in> set (otpCodes d).
                       otp_id x \<noteq> otp_id otp \<and> otp_where c PASSWORD_RESET now' x))"
    using findFirst_Some [OF f] marked_row_present [OF m] findFirst_after_mark [OF m]
    by (intro bexI [of _ otp]) (simp_all add: verifyPasswordReset_rejects)
next
  assume "\<forall>x \<in> set (otpCodes d). otp_code x = c \<and> otp_type x = PASSWORD_RESET \<longrightarrow>
          otp_verified x \<or> otp_expiresAt x \<le> now"
  then have "otpCode_findFirst d c PASSWORD_RESET now = None"
    unfolding findFirst_None by (auto simp: otp_where_def)
  then show "verifyPasswordReset e d now c newPassword salt =
         (Inl (UnauthorizedException ''Invalid or expired token''), d)"
    by (simp add: verifyPasswordReset_def)
qed

text \<open>
  \<open>db3\<close> is \<open>db2\<close> after a password reset request of each of its two users, both with the
  random draw 23456: two unverified rows with the code \<open>123456\<close>.
\<close>

theorem otp_row_single_use_witness:
  "verifyPasswordReset env0 db3 7 ''123456'' ''new1'' 0 = (Inr (), db4)
   \<and> \<lparr>otp_id = 1, otp_userId = 11, otp_code = ''123456'', otp_type = PASSWORD_RESET,
        otp_expiresAt = 900005, otp_verified = False\<rparr> \<in> set (otpCodes db3)
   \<and> \<lparr>otp_id = 1, otp_userId = 11, otp_code = ''123456'', otp_type = PASSWORD_RESET,
        otp_expiresAt = 900005, otp_verified = True\<rparr> \<in> set (otpCodes db4)
   \<and> fst (verifyPasswordReset env0 db4 900006 ''123456'' ''new2'' 0) =
        Inl (UnauthorizedException ''Invalid or expired token'')
   \<and> verifyEmail db3 7 ''123456'' =
        (Inl (UnauthorizedException ''Invalid or expired verification token''), db3)"
proof -
  have v: "verifyPasswordReset env0 db3 7 ''123456'' ''new1'' 0 = (Inr (), db4)"
    by (simp add: verifyPasswordReset_def otpCode_findFirst_def otp_where_def user_update_def
        user_findById_def otpCode_update_def merge_obj_def db3_def db4_def alice_def bob_def
        env0_def)
  have rows: "otpCodes db3 =
      [\<lparr>otp_id = 1, otp_userId = 11, otp_code = ''123456'', otp_type = PASSWORD_RESET,
        otp_expiresAt = 900005, otp_verified = False\<rparr>,
       \<lparr>otp_id = 2, otp_userId = 12, otp_code = ''123456'', otp_type = PASSWORD_RESET,
        otp_expiresAt = 900006, otp_verified = False\<rparr>]"
    by (simp add: db3_def)
  have rows4: "otpCodes db4 =
      [\<lparr>otp_id = 1, otp_userId = 11, otp_code = ''123456'', otp_type = PASSWORD_RESET,
        otp_expiresAt = 900005, otp_verified = True\<rparr>,
       \<lparr>otp_id = 2, otp_userId = 12, otp_code = ''123456'', otp_type = PASSWORD_RESET,
        otp_expiresAt = 900006, otp_verified = False\<rparr>]"
    by (simp add: db4_def)
  have none: "\<forall>x \<in> set (otpCodes db3). otp_code x = ''123456'' \<and> otp_type x = EMAIL_VERIFICATION \<longrightarrow>
      otp_verified x \<or> otp_expiresAt x \<le> 7"
    by (simp add: rows)
  note t = otp_row_single_use [of db3 7 "''123456''" db4 env0 "''new1''" 0]
  from t v obtain otp where o: "otp \<in> set (otpCodes db3)" "otp_where ''123456'' PASSWORD_RESET 7 otp"
    "otp\<lparr>otp_verified := True\<rparr> \<in> set (otpCodes db4)"
    and later: "\<And>now' newPassword' salt'.
       fst (verifyPasswordReset env0 db4 now' ''123456'' newPassword' salt') =
         Inl (UnauthorizedException ''Invalid or expired token'')
       \<longleftrightarrow> \<not> (\<exists>x \<in> set (otpCodes db3).
              otp_id x \<noteq> otp_id otp \<and> otp_where ''123456'' PASSWORD_RESET now' x)"
    by blast
  have l: "fst (verifyPasswordReset env0 db4 900006 ''123456'' ''new2'' 0) =
        Inl (UnauthorizedException ''Invalid or expired token'')"
    unfolding later by (simp add: rows otp_where_def)
  have e: "verifyEmail db3 7 ''123456'' =
        (Inl (UnauthorizedException ''Invalid or expired verification token''), db3)"
    using t none by blast
  show ?thesis
    using v l e by (simp add: rows rows4)
qed

text \<open>
  The code \<open>123456\<close> is accepted twice. Both users of \<open>db2\<close> ask for a password reset and
  draw the same code; the first \<open>verifyPasswordReset\<close> with it succeeds and consumes the
  row of user 11, the second call with the same code succeeds as well and sets the
  password of user 12.
\<close>

theorem otp_code_accepted_twice_counterexample:
  "snd (requestPasswordReset env0 (snd (requestPasswordReset env0 db2 5 ''a@x.com'' 23456))
          6 ''b@x.com'' 23456) = db3
   \<and> verifyPasswordReset env0 db3 7 ''123456'' ''new1'' 0 = (Inr (), db4)
   \<and> fst (verifyPasswordReset env0 db4 8 ''123456'' ''new2'' 0) = Inr ()
   \<and> users (snd (verifyPasswordReset env0 db4 8 ''123456'' ''new2'' 0)) =
       [\<lparr>user_id = 11,
          user_data = [(''email'', Str ''a@x.com''), (''password'', Str ''$2b$10$new1'')]\<rparr>,
        \<lparr>user_id = 12,
          user_data = [(''email'', Str ''b@x.com''), (''password'', Str ''$2b$10$new2'')]\<rparr>]"
proof -
  have t: "toString 123456 = ''123456''"
    by (simp add: toString.simps)
  have x: "setMinutes_plus15 env0 5 = 900005" "setMinutes_plus15 env0 6 = 900006"
    by (simp_all add: setMinutes_plus15_def UTC_def LocalTime_def env0_def)
  have r: "snd (requestPasswordReset env0 (snd (requestPasswordReset env0 db2 5 ''a@x.com'' 23456))
          6 ''b@x.com'' 23456) = db3"
    by (simp add: requestPasswordReset_def user_findByEmail_def user_findById_def
        otpCode_create_def fresh_id_def t x db2_def db3_def alice_def bob_def)
  have v: "verifyPasswordReset env0 db3 7 ''123456'' ''new1'' 0 = (Inr (), db4)"
    by (simp add: verifyPasswordReset_def otpCode_findFirst_def otp_where_def user_update_def
        user_findById_def otpCode_update_def merge_obj_def db3_def db4_def alice_def bob_def
        env0_def)
  have w: "verifyPasswordReset env0 db4 8 ''123456'' ''new2'' 0 =
      (Inr (), db4\<lparr>users :=
          [\<lparr>user_id = 11,
             user_data = [(''email'', Str ''a@x.com''), (''password'', Str ''$2b$10$new1'')]\<rparr>,
           \<lparr>user_id = 12,
             user_data = [(''email'', Str ''b@x.com''), (''password'', Str ''$2b$10$new2'')]\<rparr>],
        otpCodes :=
          [\<lparr>otp_id = 1, otp_userId = 11, otp_code = ''123456'', otp_type = PASSWORD_RESET,
             otp_expiresAt = 900005, otp_verified = True\<rparr>,
           \<lparr>otp_id = 2, otp_userId = 12, otp_code = ''123456'', otp_type = PASSWORD_RESET,
             otp_expiresAt = 900006, otp_verified = True\<rparr>]\<rparr>)"
    by (simp add: verifyPasswordReset_def otpCode_findFirst_def otp_where_def user_update_def
        user_findById_def otpCode_update_def merge_obj_def db4_def bob_def env0_def)
  show ?thesis
    by (simp add: r v w)
qed

end
